theory Spec2Isabelle
  imports Main "HOL-Library.Signed_Division"
begin

section \<open>The mempool orchestrator of chain33 (system/mempool/base.go)\<close>

text \<open>
  A shallow embedding of the functions of \<^verbatim>\<open>base.go\<close>. Go's \<^verbatim>\<open>int64\<close> and
  \<^verbatim>\<open>int32\<close> values are integers; every arithmetic operation whose operands the
  configuration or a peer controls is wrapped to 64 bits by \<open>wrap64\<close>. Go's \<^verbatim>\<open>/\<close> and
  \<^verbatim>\<open>%\<close> truncate towards zero: they are \<open>sdiv\<close> and \<open>smod\<close>.
\<close>

subsection \<open>Machine integers\<close>

definition wrap64 :: "int \<Rightarrow> int" where
  "wrap64 x = (x + 2 ^ 63) mod 2 ^ 64 - 2 ^ 63"


subsection \<open>Data\<close>

text \<open>
  \<^verbatim>\<open>types.Transaction\<close>, by the accessors that \<^verbatim>\<open>base.go\<close> calls on it:
  \<^verbatim>\<open>Hash()\<close>, \<^verbatim>\<open>From()\<close>, \<^verbatim>\<open>GetNonce()\<close>, \<^verbatim>\<open>GetSignature().GetTy()\<close>,
  \<^verbatim>\<open>GetExecer()\<close>, \<^verbatim>\<open>GetGroupCount()\<close> and \<^verbatim>\<open>ActionName()\<close>.
\<close>

record Transaction =
  Hash :: string
  From :: string
  Nonce :: int
  SigTy :: int
  Execer :: string
  GroupCount :: int
  ActionName :: string

text \<open>\<^verbatim>\<open>Item\<close>: one pooled transaction with its insertion time.\<close>

record Item =
  Value :: Transaction
  EnterTime :: int

record Header =
  Height :: int
  BlockTime :: int

text \<open>\<^verbatim>\<open>types.Mempool\<close>: the configuration of the pool.\<close>

record MempoolCfg =
  MaxTxNumPerAccount :: int
  MaxTxLast :: int
  PoolCacheSize :: int
  MinTxFeeRate :: int
  MaxTxFeeRate :: int
  MaxTxFee :: int
  IsLevelFee :: bool
  ForceAccept :: bool

text \<open>
  The chain configuration reached through \<^verbatim>\<open>mem.client.GetConfig()\<close>:
  \<^verbatim>\<open>IsFork(height, "ForkCheckEthTxSort")\<close> and \<^verbatim>\<open>GetP(height).MaxTxNumber\<close>, and the
  constants of package \<^verbatim>\<open>types\<close> that \<^verbatim>\<open>base.go\<close> reads. Their declarations are not
  part of \<^verbatim>\<open>base.go\<close>, so they are parameters.
\<close>

record Chain33Config =
  IsForkCheckEthTxSort :: "int \<Rightarrow> bool"
  MaxTxNumber :: "int \<Rightarrow> int"
  MaxBlockSize :: int
  ParaKeyX :: string
  MinerAction :: string
  IsEthSignID :: "int \<Rightarrow> bool"

text \<open>
  \<^verbatim>\<open>queue.Client\<close>: \<^verbatim>\<open>GetConfig()\<close> may be nil, and \<^verbatim>\<open>types.AssertConfig\<close> panics on a
  nil client or a nil configuration.
\<close>

record Client =
  GetConfig :: "Chain33Config option"

datatype panic = ConfigNotSet | ClientNotBound | NilQueueCache | NilPointer

datatype error = ErrMemFull | ErrOther string

text \<open>
  The cache (\<^verbatim>\<open>txCache\<close> and the \<^verbatim>\<open>QueueCache\<close> interface behind it) is an abstract
  state \<open>'c\<close> with its operations, the interface as a record of functions.
  \<open>c_WalkItems\<close> is the order in which \<^verbatim>\<open>Walk\<close> presents the resident items.
\<close>

record 'c CacheOps =
  c_newCache :: "int \<Rightarrow> int \<Rightarrow> int \<Rightarrow> 'c"
  c_qcacheNil :: "'c \<Rightarrow> bool"
  c_Exist :: "'c \<Rightarrow> string \<Rightarrow> bool"
  c_Remove :: "'c \<Rightarrow> string \<Rightarrow> 'c"
  c_Push :: "'c \<Rightarrow> Transaction \<Rightarrow> error option \<times> 'c"
  c_WalkItems :: "'c \<Rightarrow> Item list"
  c_Size :: "'c \<Rightarrow> int"
  c_GetProperFee :: "'c \<Rightarrow> int"
  c_GetCacheBytes :: "'c \<Rightarrow> int"

text \<open>\<^verbatim>\<open>Mempool\<close>: the fields that the sequential functions read and write.\<close>

record 'c Mempool =
  client :: "Client option"
  header :: "Header option"
  sync :: bool
  cfg :: MempoolCfg
  isclose :: bool
  cache :: 'c

text \<open>
  The package-level defaults \<^verbatim>\<open>maxTxNumPerAccount\<close>, \<^verbatim>\<open>maxTxLast\<close> and
  \<^verbatim>\<open>poolCacheSize\<close> are declared outside \<^verbatim>\<open>base.go\<close>; they are parameters.
\<close>

record Defaults =
  maxTxNumPerAccount :: int
  maxTxLast :: int
  poolCacheSize :: int

subsection \<open>NewMempool\<close>

definition NewMempool_cfg :: "Defaults \<Rightarrow> MempoolCfg \<Rightarrow> MempoolCfg" where
  "NewMempool_cfg d c0 =
    (let c1 = (if MaxTxNumPerAccount c0 = 0
               then c0\<lparr>MaxTxNumPerAccount := maxTxNumPerAccount d\<rparr> else c0);
         c2 = (if MaxTxLast c1 = 0 then c1\<lparr>MaxTxLast := maxTxLast d\<rparr> else c1);
         c3 = (if PoolCacheSize c2 = 0 then c2\<lparr>PoolCacheSize := poolCacheSize d\<rparr> else c2)
     in c3)"

definition NewMempool :: "'c CacheOps \<Rightarrow> Defaults \<Rightarrow> MempoolCfg \<Rightarrow> 'c Mempool" where
  "NewMempool ops d c0 =
    (let c = NewMempool_cfg d c0
     in \<lparr>client = None, header = None, sync = False, cfg = c, isclose = False,
         cache = c_newCache ops (MaxTxNumPerAccount c) (MaxTxLast c) (PoolCacheSize c)\<rparr>)"

subsection \<open>RemoveTxs\<close>

record TxHashList =
  Hashes :: "string list"
  Count :: int

fun removeTxs :: "'c CacheOps \<Rightarrow> 'c \<Rightarrow> string list \<Rightarrow> 'c" where
  "removeTxs ops c [] = c"
| "removeTxs ops c (hash # hashes) =
     removeTxs ops (if c_Exist ops c hash then c_Remove ops c hash else c) hashes"

text \<open>
  \<^verbatim>\<open>RemoveTxs\<close> takes a pointer and reads its field \<^verbatim>\<open>Hashes\<close>, which panics on nil.
  It returns an \<^verbatim>\<open>error\<close> (\<open>None\<close> is nil) and the pool after the call.
\<close>

definition RemoveTxs ::
  "'c CacheOps \<Rightarrow> 'c Mempool \<Rightarrow> TxHashList option \<Rightarrow> panic + error option \<times> 'c Mempool" where
  "RemoveTxs ops mem hashList =
     (case hashList of
        None \<Rightarrow> Inl NilPointer
      | Some l \<Rightarrow> Inr (None, mem\<lparr>cache := removeTxs ops (cache mem) (Hashes l)\<rparr>))"

subsection \<open>Fee rates\<close>

definition AssertConfig :: "Client option \<Rightarrow> panic + Chain33Config" where
  "AssertConfig cl =
     (case cl of
        None \<Rightarrow> Inl ClientNotBound
      | Some c \<Rightarrow> (case GetConfig c of None \<Rightarrow> Inl ConfigNotSet | Some g \<Rightarrow> Inr g))"

text \<open>\<^verbatim>\<open>Height()\<close>: -1 while no header is known.\<close>

definition HeightOf :: "'c Mempool \<Rightarrow> int" where
  "HeightOf mem = (case header mem of None \<Rightarrow> - 1 | Some h \<Rightarrow> Height h)"

text \<open>The nil-safe getters \<^verbatim>\<open>GetHeight()\<close> and \<^verbatim>\<open>GetBlockTime()\<close> of a header.\<close>

definition GetHeight :: "Header option \<Rightarrow> int" where
  "GetHeight h = (case h of None \<Rightarrow> 0 | Some x \<Rightarrow> Height x)"


definition Size :: "'c CacheOps \<Rightarrow> 'c Mempool \<Rightarrow> int" where
  "Size ops mem = c_Size ops (cache mem)"

text \<open>\<^verbatim>\<open>GetTotalCacheBytes\<close> calls a method of \<^verbatim>\<open>qcache\<close>, which panics on nil.\<close>

definition GetTotalCacheBytes :: "'c CacheOps \<Rightarrow> 'c Mempool \<Rightarrow> panic + int" where
  "GetTotalCacheBytes ops mem =
     (if c_qcacheNil ops (cache mem) then Inl NilQueueCache
      else Inr (c_GetCacheBytes ops (cache mem)))"

definition getCacheFeeRate :: "'c CacheOps \<Rightarrow> 'c Mempool \<Rightarrow> int" where
  "getCacheFeeRate ops mem =
     (if c_qcacheNil ops (cache mem) then 0
      else
        let feeRate0 = c_GetProperFee ops (cache mem);
            unitFee = MinTxFeeRate (cfg mem);
            feeRate1 = (if unitFee \<noteq> 0 \<and> feeRate0 smod unitFee > 0
                        then wrap64 (wrap64 (wrap64 (feeRate0 sdiv unitFee) + 1) * unitFee)
                        else feeRate0)
        in if feeRate1 > MaxTxFeeRate (cfg mem) then MaxTxFeeRate (cfg mem) else feeRate1)"

definition getLevelFeeRate ::
  "'c CacheOps \<Rightarrow> 'c Mempool \<Rightarrow> int \<Rightarrow> int \<Rightarrow> int \<Rightarrow> panic + int" where
  "getLevelFeeRate ops mem baseFeeRate appendCount appendSize =
     (case GetTotalCacheBytes ops mem of
        Inl p \<Rightarrow> Inl p
      | Inr bytes \<Rightarrow>
          (case AssertConfig (client mem) of
             Inl p \<Rightarrow> Inl p
           | Inr ccfg \<Rightarrow>
               let sumByte = wrap64 (bytes + appendSize);
                   maxTxNumber = MaxTxNumber ccfg (HeightOf mem);
                   memSize = Size ops mem;
                   cnt = wrap64 (memSize + appendCount);
                   feeRate =
                     (if sumByte \<ge> MaxBlockSize ccfg sdiv 20 \<or> cnt \<ge> maxTxNumber sdiv 2
                      then wrap64 (100 * baseFeeRate)
                      else if sumByte \<ge> MaxBlockSize ccfg sdiv 100 \<or> cnt \<ge> maxTxNumber sdiv 10
                      then wrap64 (10 * baseFeeRate)
                      else baseFeeRate)
               in Inr (if feeRate > MaxTxFeeRate (cfg mem) then MaxTxFeeRate (cfg mem)
                       else feeRate)))"

record ReqProperFee =
  TxCount :: int
  TxSize :: int

text \<open>
  \<^verbatim>\<open>GetProperFeeRate\<close> takes a pointer, which may be nil (\<open>None\<close>). The local variable
  \<^verbatim>\<open>req\<close> either still points to the caller's object or was rebound to a fresh one; the
  write of the default size goes to whichever it points to. The result is the rate (or a
  panic) and the caller's object after the call.
\<close>

definition GetProperFeeRate ::
  "'c CacheOps \<Rightarrow> 'c Mempool \<Rightarrow> ReqProperFee option \<Rightarrow> (panic + int) \<times> ReqProperFee option" where
  "GetProperFeeRate ops mem reqp =
     (let rebound = (case reqp of None \<Rightarrow> True | Some r \<Rightarrow> TxCount r = 0);
          req0 = (case reqp of
                    None \<Rightarrow> \<lparr>TxCount = 20, TxSize = 0\<rparr>
                  | Some r \<Rightarrow> if TxCount r = 0 then \<lparr>TxCount = 20, TxSize = 0\<rparr> else r);
          req1 = (if TxSize req0 = 0 then req0\<lparr>TxSize := 10240\<rparr> else req0);
          caller = (if rebound then reqp else Some req1);
          feeRate = getCacheFeeRate ops mem
      in if IsLevelFee (cfg mem)
         then (case getLevelFeeRate ops mem (MinTxFeeRate (cfg mem)) (TxCount req1) (TxSize req1) of
                 Inl p \<Rightarrow> (Inl p, caller)
               | Inr levelFeeRate \<Rightarrow>
                   (Inr (if levelFeeRate > feeRate then levelFeeRate else feeRate), caller))
         else (Inr feeRate, caller))"

subsection \<open>The nonce sequencer\<close>



text \<open>\<^verbatim>\<open>bytes.HasPrefix\<close>.\<close>

definition HasPrefix :: "string \<Rightarrow> string \<Rightarrow> bool" where
  "HasPrefix s p \<longleftrightarrow> length p \<le> length s \<and> take (length p) s = p"

text \<open>The test of the first loop: an eth signature and no parallel-chain executor.\<close>

definition isEthTx :: "Chain33Config \<Rightarrow> Transaction \<Rightarrow> bool" where
  "isEthTx ccfg tx \<longleftrightarrow>
     IsEthSignID ccfg (SigTy tx) \<and> \<not> HasPrefix (Execer tx) (ParaKeyX ccfg)"






subsection \<open>getTxList\<close>







subsection \<open>PushTx and delBlock\<close>

definition PushTx :: "'c CacheOps \<Rightarrow> 'c Mempool \<Rightarrow> Transaction \<Rightarrow> error option \<times> 'c Mempool" where
  "PushTx ops mem tx =
     (fst (c_Push ops (cache mem) tx), mem\<lparr>cache := snd (c_Push ops (cache mem) tx)\<rparr>)"

text \<open>
  What \<^verbatim>\<open>delBlock\<close> calls and \<^verbatim>\<open>base.go\<close> does not declare: \<^verbatim>\<open>Transactions.Tx()\<close>,
  which assembles a group into one transaction, \<^verbatim>\<open>tx.Check\<close> (the structural check and
  the fee bounds, \<open>None\<close> is a nil error) and \<^verbatim>\<open>mem.checkExpireValid\<close>.
\<close>

record 'c BlockDeps =
  GroupTx :: "Transaction list \<Rightarrow> Transaction"
  Check :: "Chain33Config \<Rightarrow> Transaction \<Rightarrow> int \<Rightarrow> int \<Rightarrow> int \<Rightarrow> error option"
  checkExpireValid :: "'c Mempool \<Rightarrow> Transaction \<Rightarrow> bool"

text \<open>
  The loop of \<^verbatim>\<open>delBlock\<close> from index \<open>i\<close> on. A group moves \<open>i\<close> to its last
  member before the increment of the loop.
\<close>

function delBlock_loop ::
  "'c CacheOps \<Rightarrow> 'c BlockDeps \<Rightarrow> Chain33Config \<Rightarrow> Transaction list \<Rightarrow> nat \<Rightarrow> 'c Mempool
   \<Rightarrow> 'c Mempool" where
  "delBlock_loop ops deps ccfg blkTxs i mem =
     (if i < length blkTxs
      then
        (if i = 0 \<and> ActionName (blkTxs ! i) = MinerAction ccfg
         then delBlock_loop ops deps ccfg blkTxs (i + 1) mem
         else
           let groupCount = GroupCount (blkTxs ! i);
               grouped = (groupCount > 1 \<and> int i + groupCount \<le> int (length blkTxs));
               tx = (if grouped then GroupTx deps (take (nat groupCount) (drop i blkTxs))
                     else blkTxs ! i);
               i' = (if grouped then i + nat groupCount - 1 else i)
           in if Check deps ccfg tx (GetHeight (header mem)) (MinTxFeeRate (cfg mem))
                   (MaxTxFee (cfg mem)) \<noteq> None
              then delBlock_loop ops deps ccfg blkTxs (i' + 1) mem
              else if \<not> checkExpireValid deps mem tx
              then delBlock_loop ops deps ccfg blkTxs (i' + 1) mem
              else delBlock_loop ops deps ccfg blkTxs (i' + 1) (snd (PushTx ops mem tx)))
      else mem)"
  by pat_completeness auto
termination
  by (relation "measure (\<lambda>(ops, deps, ccfg, blkTxs, i, mem). length blkTxs - i)") auto

declare delBlock_loop.simps [simp del]

definition delBlock ::
  "'c CacheOps \<Rightarrow> 'c BlockDeps \<Rightarrow> 'c Mempool \<Rightarrow> Transaction list \<Rightarrow> panic + 'c Mempool" where
  "delBlock ops deps mem blkTxs =
     (if length blkTxs \<le> 0 then Inr mem
      else case AssertConfig (client mem) of
             Inl p \<Rightarrow> Inl p
           | Inr ccfg \<Rightarrow> Inr (delBlock_loop ops deps ccfg blkTxs 0 mem))"

subsection \<open>checkSync\<close>

text \<open>
  What one turn of the loop of \<^verbatim>\<open>checkSync\<close> meets: the pool is closed, or the query
  \<^verbatim>\<open>EventIsSync\<close> fails at \<^verbatim>\<open>Send\<close>, fails at \<^verbatim>\<open>Wait\<close>, or is answered. The list of
  these is what the environment presents, turn by turn; when it is used up the task is
  still in its loop.
\<close>

datatype syncTurn = Closed | SendErr | WaitErr | IsCaughtUp bool

datatype syncAction = AskBlockchainIsSync | SleepSecond | NotifyP2P | SignalPoolHeader

datatype taskState = Running | Returned | Panicked

record 'c taskResult =
  state :: taskState
  pool :: "'c Mempool"
  actions :: "syncAction list"

fun checkSync_loop :: "'c Mempool \<Rightarrow> syncAction list \<Rightarrow> syncTurn list \<Rightarrow> 'c taskResult" where
  "checkSync_loop mem acts [] = \<lparr>state = Running, pool = mem, actions = acts\<rparr>"
| "checkSync_loop mem acts (Closed # turns) = \<lparr>state = Returned, pool = mem, actions = acts\<rparr>"
| "checkSync_loop mem acts (t # turns) =
     (if client mem = None then \<lparr>state = Panicked, pool = mem, actions = acts\<rparr>
      else case t of
             IsCaughtUp True \<Rightarrow>
               \<lparr>state = Returned, pool = mem\<lparr>sync := True\<rparr>,
                actions = acts @ [AskBlockchainIsSync, NotifyP2P]\<rparr>
           | _ \<Rightarrow> checkSync_loop mem (acts @ [AskBlockchainIsSync, SleepSecond]) turns)"

text \<open>The deferred send on \<^verbatim>\<open>poolHeader\<close> runs when the function is left.\<close>

definition checkSync :: "'c Mempool \<Rightarrow> syncTurn list \<Rightarrow> 'c taskResult" where
  "checkSync mem turns =
     (if sync mem then \<lparr>state = Returned, pool = mem, actions = [SignalPoolHeader]\<rparr>
      else
        let mem1 = (if ForceAccept (cfg mem) then mem\<lparr>sync := True\<rparr> else mem);
            r = checkSync_loop mem1 [] turns
        in if state r = Running then r else r\<lparr>actions := actions r @ [SignalPoolHeader]\<rparr>)"

subsection \<open>pushDelayTxRoutine\<close>

text \<open>
  \<^verbatim>\<open>mem.getAPI().SendTx\<close> is the submission entry point: from the state \<open>'w\<close> of what
  is behind it, it returns an error (\<open>None\<close> is nil) and the next state. The closure
  \<^verbatim>\<open>push2Mempool\<close> appends to \<^verbatim>\<open>retryList\<close>.
\<close>

definition push2Mempool ::
  "('w \<Rightarrow> Transaction \<Rightarrow> error option \<times> 'w) \<Rightarrow> Transaction list \<times> 'w \<Rightarrow> Transaction
   \<Rightarrow> Transaction list \<times> 'w" where
  "push2Mempool SendTx s tx =
     (if fst (SendTx (snd s) tx) = Some ErrMemFull
      then (fst s @ [tx], snd (SendTx (snd s) tx))
      else (fst s, snd (SendTx (snd s) tx)))"

text \<open>The cases of the \<^verbatim>\<open>select\<close>: shutdown, a batch on the channel, the ticker.\<close>

datatype delayEvent = Done | DelayList "Transaction list" | Tick

definition onDelayList ::
  "('w \<Rightarrow> Transaction \<Rightarrow> error option \<times> 'w) \<Rightarrow> Transaction list \<times> 'w \<Rightarrow> Transaction list
   \<Rightarrow> Transaction list \<times> 'w" where
  "onDelayList SendTx s delayList = foldl (push2Mempool SendTx) s delayList"

definition onTick ::
  "('w \<Rightarrow> Transaction \<Rightarrow> error option \<times> 'w) \<Rightarrow> Transaction list \<times> 'w \<Rightarrow> Transaction list \<times> 'w" where
  "onTick SendTx s =
     (if length (fst s) = 0 then s
      else let sendList = fst s in foldl (push2Mempool SendTx) ([], snd s) sendList)"

text \<open>
  The routine over the events that the \<^verbatim>\<open>select\<close> takes, in the order it takes them:
  \<open>True\<close> when it has returned, \<open>False\<close> while it waits for the next event.
\<close>

fun pushDelayTxRoutine ::
  "('w \<Rightarrow> Transaction \<Rightarrow> error option \<times> 'w) \<Rightarrow> Transaction list \<times> 'w \<Rightarrow> delayEvent list
   \<Rightarrow> bool \<times> Transaction list \<times> 'w" where
  "pushDelayTxRoutine SendTx s [] = (False, s)"
| "pushDelayTxRoutine SendTx s (Done # evs) = (True, s)"
| "pushDelayTxRoutine SendTx s (DelayList l # evs) =
     pushDelayTxRoutine SendTx (onDelayList SendTx s l) evs"
| "pushDelayTxRoutine SendTx s (Tick # evs) = pushDelayTxRoutine SendTx (onTick SendTx s) evs"

section \<open>The specification's notions\<close>

subsection \<open>Fee rates\<close>

text \<open>
  The level of the tiered fee: 100 when the bytes reach 1/20 of the maximal block size or
  the count reaches half of the maximal number of transactions, 10 when they reach 1/100
  or 1/10 of them, 1 otherwise. The fractions are integer divisions that truncate.
\<close>

definition levelMultiplier :: "int \<Rightarrow> int \<Rightarrow> int \<Rightarrow> int \<Rightarrow> int" where
  "levelMultiplier maxBlockSize maxTxNumber bytes count =
     (if bytes \<ge> maxBlockSize sdiv 20 \<or> count \<ge> maxTxNumber sdiv 2 then 100
      else if bytes \<ge> maxBlockSize sdiv 100 \<or> count \<ge> maxTxNumber sdiv 10 then 10
      else 1)"





subsection \<open>Nonce runs\<close>

text \<open>
  The maximal strictly consecutive run of nonces that starts at the expected value: the
  longest prefix of the list whose nonces are \<open>e\<close>, \<open>e + 1\<close>, \<open>e + 2\<close>, ...
\<close>

fun nonce_run :: "int \<Rightarrow> Transaction list \<Rightarrow> Transaction list" where
  "nonce_run e [] = []"
| "nonce_run e (x # xs) = (if Nonce x = e then x # nonce_run (e + 1) xs else [])"


subsection \<open>Bounded listing\<close>



subsection \<open>Rollback\<close>

text \<open>
  The candidates of a rolled-back block. The scan takes a transaction that declares a
  group size \<open>g > 1\<close> with \<open>g\<close> transactions left from it on as the group of these
  \<open>g\<close>, assembled into one, and goes on behind the group; any other transaction is a
  candidate by itself.
\<close>

function groupScan :: "(Transaction list \<Rightarrow> Transaction) \<Rightarrow> Transaction list \<Rightarrow> Transaction list" where
  "groupScan G [] = []"
| "groupScan G (tx # rest) =
     (if GroupCount tx > 1 \<and> GroupCount tx \<le> int (length (tx # rest))
      then G (take (nat (GroupCount tx)) (tx # rest))
             # groupScan G (drop (nat (GroupCount tx)) (tx # rest))
      else tx # groupScan G rest)"
  by pat_completeness auto
termination
  by (relation "measure (\<lambda>(G, txs). length txs)") auto

declare groupScan.simps(2) [simp del]

text \<open>A miner transaction at position 0 is skipped; the scan starts behind it.\<close>

definition candidates :: "Chain33Config \<Rightarrow> (Transaction list \<Rightarrow> Transaction) \<Rightarrow> Transaction list \<Rightarrow> Transaction list" where
  "candidates ccfg G blkTxs =
     (case blkTxs of
        [] \<Rightarrow> []
      | t0 # rest \<Rightarrow> if ActionName t0 = MinerAction ccfg then groupScan G rest
                     else groupScan G blkTxs)"

text \<open>
  One candidate: it is pushed when \<^verbatim>\<open>Check\<close> returns no error and it is not expired,
  and the error of the push is dropped; otherwise the pool stays as it is.
\<close>

definition readmit :: "'c CacheOps \<Rightarrow> 'c BlockDeps \<Rightarrow> Chain33Config \<Rightarrow> 'c Mempool \<Rightarrow> Transaction \<Rightarrow> 'c Mempool" where
  "readmit ops deps ccfg mem tx =
     (if Check deps ccfg tx (GetHeight (header mem)) (MinTxFeeRate (cfg mem)) (MaxTxFee (cfg mem)) = None
         \<and> checkExpireValid deps mem tx
      then snd (PushTx ops mem tx) else mem)"

subsection \<open>Resubmission\<close>

text \<open>
  One attempt for each transaction of a list, in order, with its outcome; the state behind
  the entry point after all of them; and the transactions whose attempt failed with
  \<open>ErrMemFull\<close>.
\<close>

fun attempts ::
  "('w \<Rightarrow> Transaction \<Rightarrow> error option \<times> 'w) \<Rightarrow> 'w \<Rightarrow> Transaction list
   \<Rightarrow> (Transaction \<times> error option) list" where
  "attempts SendTx w [] = []"
| "attempts SendTx w (tx # txs) =
     (tx, fst (SendTx w tx)) # attempts SendTx (snd (SendTx w tx)) txs"

fun sendAll :: "('w \<Rightarrow> Transaction \<Rightarrow> error option \<times> 'w) \<Rightarrow> 'w \<Rightarrow> Transaction list \<Rightarrow> 'w" where
  "sendAll SendTx w [] = w"
| "sendAll SendTx w (tx # txs) = sendAll SendTx (snd (SendTx w tx)) txs"

definition poolFull :: "(Transaction \<times> error option) list \<Rightarrow> Transaction list" where
  "poolFull outcomes = map fst (filter (\<lambda>p. snd p = Some ErrMemFull) outcomes)"

section \<open>Example data\<close>

text \<open>
  Modelled from the spec: a Pool Cache with at most one item for a hash, kept as the list
  of its items in walk order. \<^verbatim>\<open>Remove\<close> deletes the item of a hash, \<^verbatim>\<open>Push\<close> fails
  on a resident hash and appends otherwise. And a configuration of zeros.
\<close>

definition listOps :: "(Item list) CacheOps" where
  "listOps =
    \<lparr>c_newCache = (\<lambda>_ _ _. []),
     c_qcacheNil = (\<lambda>_. False),
     c_Exist = (\<lambda>c h. \<exists>it \<in> set c. Hash (Value it) = h),
     c_Remove = (\<lambda>c h. filter (\<lambda>it. Hash (Value it) \<noteq> h) c),
     c_Push = (\<lambda>c tx. if (\<exists>it \<in> set c. Hash (Value it) = Hash tx)
                        then (Some (ErrOther ''dup''), c)
                        else (None, c @ [\<lparr>Value = tx, EnterTime = 0\<rparr>])),
     c_WalkItems = (\<lambda>c. c),
     c_Size = (\<lambda>c. int (length c)),
     c_GetProperFee = (\<lambda>_. 0),
     c_GetCacheBytes = (\<lambda>_. 0)\<rparr>"

definition zeroCfg :: MempoolCfg where
  "zeroCfg = \<lparr>MaxTxNumPerAccount = 0, MaxTxLast = 0, PoolCacheSize = 0, MinTxFeeRate = 0,
              MaxTxFeeRate = 0, MaxTxFee = 0, IsLevelFee = False, ForceAccept = False\<rparr>"

definition someDefaults :: Defaults where
  "someDefaults = \<lparr>maxTxNumPerAccount = 100, maxTxLast = 10, poolCacheSize = 10240\<rparr>"

text \<open>A chain configuration, and a cache that is its three readings: proper fee, bytes, size.\<close>

definition exampleCfg :: Chain33Config where
  "exampleCfg =
     \<lparr>IsForkCheckEthTxSort = (\<lambda>h. 100 \<le> h), MaxTxNumber = (\<lambda>_. 1600), MaxBlockSize = 20000000,
      ParaKeyX = ''user.p.'', MinerAction = ''miner'', IsEthSignID = (\<lambda>ty. ty = 2)\<rparr>"

definition gaugeOps :: "(int \<times> int \<times> int) CacheOps" where
  "gaugeOps =
    \<lparr>c_newCache = (\<lambda>_ _ _. (0, 0, 0)),
     c_qcacheNil = (\<lambda>_. False),
     c_Exist = (\<lambda>_ _. False),
     c_Remove = (\<lambda>c _. c),
     c_Push = (\<lambda>c _. (None, c)),
     c_WalkItems = (\<lambda>_. []),
     c_Size = (\<lambda>c. snd (snd c)),
     c_GetProperFee = (\<lambda>c. fst c),
     c_GetCacheBytes = (\<lambda>c. fst (snd c))\<rparr>"

definition feeCfg :: MempoolCfg where
  "feeCfg = \<lparr>MaxTxNumPerAccount = 100, MaxTxLast = 10, PoolCacheSize = 10240,
             MinTxFeeRate = 100000, MaxTxFeeRate = 10000000, MaxTxFee = 1000000000,
             IsLevelFee = True, ForceAccept = False\<rparr>"

definition feeMem :: "(int \<times> int \<times> int) Mempool" where
  "feeMem = \<lparr>client = Some \<lparr>GetConfig = Some exampleCfg\<rparr>,
             header = Some \<lparr>Height = 10, BlockTime = 1000\<rparr>, sync = True, cfg = feeCfg,
             isclose = False, cache = (100001, 190000, 0)\<rparr>"

text \<open>Transactions: eth-signed ones of sender A by nonce, and plain ones of sender B.\<close>

definition txA :: "int \<Rightarrow> Transaction" where
  "txA n = \<lparr>Hash = ''a'' @ replicate (nat n) CHR ''x'', From = ''A'', Nonce = n, SigTy = 2,
            Execer = ''evm'', GroupCount = 0, ActionName = ''call''\<rparr>"

definition txPlain :: "string \<Rightarrow> Transaction" where
  "txPlain h = \<lparr>Hash = h, From = ''B'', Nonce = 0, SigTy = 1,
                Execer = ''coins'', GroupCount = 0, ActionName = ''transfer''\<rparr>"



definition poolItems :: "Item list" where
  "poolItems = [\<lparr>Value = txPlain ''p'', EnterTime = 900\<rparr>, \<lparr>Value = txPlain ''q'', EnterTime = 100\<rparr>,
                \<lparr>Value = txA 6, EnterTime = 900\<rparr>, \<lparr>Value = txPlain ''r'', EnterTime = 900\<rparr>]"

definition listMem :: "int \<Rightarrow> (Item list) Mempool" where
  "listMem h = \<lparr>client = Some \<lparr>GetConfig = Some exampleCfg\<rparr>,
                header = Some \<lparr>Height = h, BlockTime = 1000\<rparr>, sync = True, cfg = feeCfg,
                isclose = False, cache = poolItems\<rparr>"

text \<open>
  A rolled-back block's helpers: a group is its first transaction under the joined
  hashes, a negative nonce stands for a transaction that fails the check. A pool with
  ForceAccept set that is not yet synced. A submission entry point that is full for its
  first two calls.
\<close>

definition exDeps :: "(Item list) BlockDeps" where
  "exDeps =
     \<lparr>GroupTx = (\<lambda>txs. case txs of [] \<Rightarrow> txPlain ''none''
                         | t # _ \<Rightarrow> t\<lparr>Hash := concat (map Hash txs)\<rparr>),
      Check = (\<lambda>ccfg tx height minFee maxFee.
                 if Nonce tx < 0 then Some (ErrOther ''fee'') else None),
      checkExpireValid = (\<lambda>mem tx. True)\<rparr>"

definition txMiner :: Transaction where
  "txMiner = \<lparr>Hash = ''m'', From = ''M'', Nonce = 0, SigTy = 1, Execer = ''ticket'',
              GroupCount = 0, ActionName = ''miner''\<rparr>"

definition txGroup :: "string \<Rightarrow> Transaction" where
  "txGroup h = \<lparr>Hash = h, From = ''B'', Nonce = 0, SigTy = 1, Execer = ''coins'',
                GroupCount = 2, ActionName = ''transfer''\<rparr>"

definition txBad :: Transaction where
  "txBad = \<lparr>Hash = ''bad'', From = ''B'', Nonce = - 1, SigTy = 1, Execer = ''coins'',
            GroupCount = 0, ActionName = ''transfer''\<rparr>"

definition emptyMem :: "(Item list) Mempool" where
  "emptyMem = \<lparr>client = Some \<lparr>GetConfig = Some exampleCfg\<rparr>,
               header = Some \<lparr>Height = 10, BlockTime = 1000\<rparr>, sync = False,
               cfg = feeCfg\<lparr>ForceAccept := True\<rparr>, isclose = False, cache = []\<rparr>"

definition fullTwice :: "nat \<Rightarrow> Transaction \<Rightarrow> error option \<times> nat" where
  "fullTwice w tx =
     (if Hash tx = ''p'' \<and> w < 2 then (Some ErrMemFull, Suc w)
      else if Hash tx = ''q'' then (Some (ErrOther ''dup''), Suc w)
      else (None, Suc w))"

section \<open>Theorems\<close>

subsection \<open>Machine integers\<close>


subsection \<open>NewMempool\<close>

text \<open>
  C5, as amended. For every configuration passed to \<open>NewMempool\<close>, each of the three
  fields MaxTxNumPerAccount, MaxTxLast and PoolCacheSize that is zero is replaced by its
  default and is kept when it is not zero, and the cache is built from the three resulting
  values. The other fields (MinTxFeeRate, MaxTxFeeRate, MaxTxFee, IsLevelFee,
  ForceAccept) are taken as they are given, zero or not.
\<close>

theorem NewMempool_defaults:
  "cfg (NewMempool ops d c) =
     c\<lparr>MaxTxNumPerAccount :=
          (if MaxTxNumPerAccount c = 0 then maxTxNumPerAccount d else MaxTxNumPerAccount c),
       MaxTxLast := (if MaxTxLast c = 0 then maxTxLast d else MaxTxLast c),
       PoolCacheSize := (if PoolCacheSize c = 0 then poolCacheSize d else PoolCacheSize c)\<rparr>
   \<and> MinTxFeeRate (cfg (NewMempool ops d c)) = MinTxFeeRate c
   \<and> MaxTxFeeRate (cfg (NewMempool ops d c)) = MaxTxFeeRate c
   \<and> IsLevelFee (cfg (NewMempool ops d c)) = IsLevelFee c
   \<and> ForceAccept (cfg (NewMempool ops d c)) = ForceAccept c
   \<and> cache (NewMempool ops d c) =
       c_newCache ops (MaxTxNumPerAccount (cfg (NewMempool ops d c)))
         (MaxTxLast (cfg (NewMempool ops d c))) (PoolCacheSize (cfg (NewMempool ops d c)))"
  by (simp add: NewMempool_def NewMempool_cfg_def Let_def)

text \<open>
  The claim C5 as it is written fails: a zero MinTxFeeRate and a zero MaxTxFeeRate are
  still zero in the configuration that the constructed pool uses.
\<close>

theorem NewMempool_fee_rates_not_defaulted:
  "MinTxFeeRate zeroCfg = 0 \<and> MaxTxFeeRate zeroCfg = 0
   \<and> MinTxFeeRate (cfg (NewMempool listOps someDefaults zeroCfg)) = 0
   \<and> MaxTxFeeRate (cfg (NewMempool listOps someDefaults zeroCfg)) = 0
   \<and> MaxTxNumPerAccount (cfg (NewMempool listOps someDefaults zeroCfg)) = 100"
  by (simp add: NewMempool_def NewMempool_cfg_def Let_def zeroCfg_def someDefaults_def)

subsection \<open>RemoveTxs\<close>

lemma removeTxs_absent:
  "\<forall>h \<in> set hs. \<not> c_Exist ops c h \<Longrightarrow> removeTxs ops c hs = c"
  by (induction hs arbitrary: c) auto

lemma removeTxs_keeps_absent:
  assumes stay: "\<forall>c h h'. \<not> c_Exist ops c h \<longrightarrow> \<not> c_Exist ops (c_Remove ops c h') h"
  shows "\<not> c_Exist ops c h \<Longrightarrow> \<not> c_Exist ops (removeTxs ops c hs) h"
proof (induction hs arbitrary: c)
  case Nil
  then show ?case by simp
next
  case (Cons a hs)
  have "\<not> c_Exist ops (if c_Exist ops c a then c_Remove ops c a else c) h"
    using Cons.prems stay by auto
  then show ?case using Cons.IH by simp
qed

lemma removeTxs_all_absent:
  assumes gone: "\<forall>c h. \<not> c_Exist ops (c_Remove ops c h) h"
      and stay: "\<forall>c h h'. \<not> c_Exist ops c h \<longrightarrow> \<not> c_Exist ops (c_Remove ops c h') h"
  shows "\<forall>h \<in> set hs. \<not> c_Exist ops (removeTxs ops c hs) h"
proof (induction hs arbitrary: c)
  case Nil
  then show ?case by simp
next
  case (Cons a hs)
  let ?c = "if c_Exist ops c a then c_Remove ops c a else c"
  have "\<not> c_Exist ops ?c a" using gone by auto
  then have "\<not> c_Exist ops (removeTxs ops ?c hs) a"
    by (rule removeTxs_keeps_absent [OF stay])
  then show ?case using Cons.IH [of ?c] by simp
qed

text \<open>
  C9. For every hash list, \<open>RemoveTxs\<close> returns with a nil error; applying it again
  with the same list to the pool it leaves changes nothing; and when no hash of the list
  is resident it leaves the pool as it is. The cache's own \<^verbatim>\<open>Exist\<close> and \<^verbatim>\<open>Remove\<close>
  are taken by their contract: a removed hash is no longer resident, and removing a hash
  makes no other hash resident.
\<close>

theorem RemoveTxs_idempotent:
  assumes gone: "\<forall>c h. \<not> c_Exist ops (c_Remove ops c h) h"
      and stay: "\<forall>c h h'. \<not> c_Exist ops c h \<longrightarrow> \<not> c_Exist ops (c_Remove ops c h') h"
  shows "RemoveTxs ops mem (Some hl)
           = Inr (None, mem\<lparr>cache := removeTxs ops (cache mem) (Hashes hl)\<rparr>)
     \<and> RemoveTxs ops (mem\<lparr>cache := removeTxs ops (cache mem) (Hashes hl)\<rparr>) (Some hl)
           = Inr (None, mem\<lparr>cache := removeTxs ops (cache mem) (Hashes hl)\<rparr>)
     \<and> ((\<forall>h \<in> set (Hashes hl). \<not> c_Exist ops (cache mem) h) \<longrightarrow>
           RemoveTxs ops mem (Some hl) = Inr (None, mem))"
proof -
  have "removeTxs ops (removeTxs ops (cache mem) (Hashes hl)) (Hashes hl)
        = removeTxs ops (cache mem) (Hashes hl)"
    by (rule removeTxs_absent) (rule removeTxs_all_absent [OF gone stay])
  then show ?thesis
    by (simp add: RemoveTxs_def removeTxs_absent)
qed

theorem RemoveTxs_idempotent_witness:
  "RemoveTxs listOps (listMem 10) (Some \<lparr>Hashes = [''q'', ''zz'', ''p''], Count = 0\<rparr>)
     = Inr (None, (listMem 10)\<lparr>cache :=
         [\<lparr>Value = txA 6, EnterTime = 900\<rparr>, \<lparr>Value = txPlain ''r'', EnterTime = 900\<rparr>]\<rparr>)
   \<and> RemoveTxs listOps
        ((listMem 10)\<lparr>cache :=
           [\<lparr>Value = txA 6, EnterTime = 900\<rparr>, \<lparr>Value = txPlain ''r'', EnterTime = 900\<rparr>]\<rparr>)
        (Some \<lparr>Hashes = [''q'', ''zz'', ''p''], Count = 0\<rparr>)
     = Inr (None, (listMem 10)\<lparr>cache :=
         [\<lparr>Value = txA 6, EnterTime = 900\<rparr>, \<lparr>Value = txPlain ''r'', EnterTime = 900\<rparr>]\<rparr>)"
proof -
  have gone: "\<forall>c h. \<not> c_Exist listOps (c_Remove listOps c h) h"
    by (simp add: listOps_def)
  have stay: "\<forall>c h h'. \<not> c_Exist listOps c h \<longrightarrow> \<not> c_Exist listOps (c_Remove listOps c h') h"
    by (simp add: listOps_def)
  have c: "removeTxs listOps (cache (listMem 10)) (Hashes \<lparr>Hashes = [''q'', ''zz'', ''p''], Count = 0\<rparr>)
       = [\<lparr>Value = txA 6, EnterTime = 900\<rparr>, \<lparr>Value = txPlain ''r'', EnterTime = 900\<rparr>]"
    by (simp add: listOps_def listMem_def poolItems_def txPlain_def txA_def)
  show ?thesis
    using RemoveTxs_idempotent [OF gone stay, of "listMem 10"
        "\<lparr>Hashes = [''q'', ''zz'', ''p''], Count = 0\<rparr>"]
    by (simp only: c)
qed

subsection \<open>Fee rates\<close>





text \<open>
  Where the maximal block size and the maximal number of transactions divide evenly, the
  truncating thresholds are the exact fractions.
\<close>

lemma levelMultiplier_exact:
  assumes "20 dvd M" "100 dvd M" "2 dvd N" "10 dvd N"
  shows "levelMultiplier M N bytes count =
     (if 20 * bytes \<ge> M \<or> 2 * count \<ge> N then 100
      else if 100 * bytes \<ge> M \<or> 10 * count \<ge> N then 10 else 1)"
proof -
  have d: "k dvd a \<Longrightarrow> 0 < k \<Longrightarrow> (b \<ge> a sdiv k) = (k * b \<ge> a)" for a b k :: int
  proof -
    assume "k dvd a" "0 < k"
    then obtain c where c: "a = k * c" by (auto simp: dvd_def)
    have "sgn (k * c) * \<bar>c\<bar> = c" using \<open>0 < k\<close>
      by (cases "c < 0"; cases "c = 0") (simp_all add: sgn_mult mult_less_0_iff zero_less_mult_iff sgn_if)
    then have "a sdiv k = c" using c \<open>0 < k\<close>
      by (simp add: signed_divide_int_def abs_mult)
    then show ?thesis using c \<open>0 < k\<close> by simp
  qed
  show ?thesis using assms by (simp add: levelMultiplier_def d)
qed










text \<open>
  C10, as amended. A request with TxCount 0 is replaced, whatever its TxSize, by a fresh
  request with the defaults 20 and 10240: the rate is the one of that request and the
  caller's object is not written. A request with a TxCount other than 0 and TxSize 0 has
  the default size 10240 written into the caller's object and is computed with it. Any
  other request is left as it is.
\<close>

theorem GetProperFeeRate_request:
  "(TxCount r = 0 \<longrightarrow>
      GetProperFeeRate ops mem (Some r) =
        (fst (GetProperFeeRate ops mem (Some \<lparr>TxCount = 20, TxSize = 10240\<rparr>)), Some r))
   \<and> (TxCount r \<noteq> 0 \<and> TxSize r = 0 \<longrightarrow>
        GetProperFeeRate ops mem (Some r) =
          (fst (GetProperFeeRate ops mem (Some \<lparr>TxCount = TxCount r, TxSize = 10240\<rparr>)),
           Some (r\<lparr>TxSize := 10240\<rparr>)))
   \<and> (TxCount r \<noteq> 0 \<and> TxSize r \<noteq> 0 \<longrightarrow> snd (GetProperFeeRate ops mem (Some r)) = Some r)
   \<and> snd (GetProperFeeRate ops mem None) = None"
  by (simp add: GetProperFeeRate_def Let_def split: sum.splits)

theorem GetProperFeeRate_request_witness:
  "GetProperFeeRate gaugeOps feeMem (Some \<lparr>TxCount = 0, TxSize = 5000\<rparr>)
     = (Inr 1000000, Some \<lparr>TxCount = 0, TxSize = 5000\<rparr>)
   \<and> snd (GetProperFeeRate gaugeOps feeMem (Some \<lparr>TxCount = 7, TxSize = 0\<rparr>))
     = Some \<lparr>TxCount = 7, TxSize = 10240\<rparr>"
  using GetProperFeeRate_request [of "\<lparr>TxCount = 0, TxSize = 5000\<rparr>" gaugeOps feeMem]
    GetProperFeeRate_request [of "\<lparr>TxCount = 7, TxSize = 0\<rparr>" gaugeOps feeMem]
  by (simp add: GetProperFeeRate_def getCacheFeeRate_def getLevelFeeRate_def
      GetTotalCacheBytes_def AssertConfig_def Size_def HeightOf_def feeMem_def feeCfg_def
      gaugeOps_def exampleCfg_def wrap64_def Let_def signed_divide_int_def
      signed_modulo_int_def)

text \<open>
  The claim C10 as it is written fails: with TxSize 0 and TxCount 0 the caller's object
  is not written, its TxSize is still 0 after the call.
\<close>

theorem GetProperFeeRate_no_write_counterexample:
  "snd (GetProperFeeRate gaugeOps feeMem (Some \<lparr>TxCount = 0, TxSize = 0\<rparr>))
     = Some \<lparr>TxCount = 0, TxSize = 0\<rparr>"
  by (simp add: GetProperFeeRate_def Let_def split: sum.splits)

subsection \<open>The nonce sequencer\<close>














lemma isEthTx_txA [simp]: "isEthTx exampleCfg (txA n)"
  by (simp add: isEthTx_def exampleCfg_def txA_def HasPrefix_def)

lemma isEthTx_txPlain [simp]: "\<not> isEthTx exampleCfg (txPlain h)"
  by (simp add: isEthTx_def exampleCfg_def txPlain_def)

lemma From_ex [simp]: "From (txA n) = ''A''" "From (txPlain h) = ''B''" "Nonce (txA n) = n"
  "Nonce (txPlain h) = 0"
  by (simp_all add: txA_def txPlain_def)


text \<open>
  What \<open>nonce_run\<close> is: a prefix of the list, whose nonces count up from the expected
  value by one, and which the next entry of the list does not continue.
\<close>

lemma nonce_run_prefix: "nonce_run e xs = take (length (nonce_run e xs)) xs"
  by (induction xs arbitrary: e) auto

lemma nonce_run_consecutive:
  "i < length (nonce_run e xs) \<Longrightarrow> Nonce (nonce_run e xs ! i) = e + int i"
proof (induction xs arbitrary: e i)
  case Nil
  then show ?case by simp
next
  case (Cons x xs)
  then show ?case by (cases i) (auto split: if_splits)
qed

lemma nonce_run_maximal:
  "length (nonce_run e xs) < length xs \<Longrightarrow>
   Nonce (xs ! length (nonce_run e xs)) \<noteq> e + int (length (nonce_run e xs))"
proof (induction xs arbitrary: e)
  case Nil
  then show ?case by simp
next
  case (Cons x xs)
  show ?case
  proof (cases "Nonce x = e")
    case True
    then have "length (nonce_run (e + 1) xs) < length xs" using Cons.prems by simp
    from Cons.IH [OF this] True show ?thesis by (simp add: add.assoc)
  next
    case False
    then show ?thesis by simp
  qed
qed

subsection \<open>getTxList\<close>






subsection \<open>delBlock\<close>

lemma delBlock_loop_scan:
  assumes "i > 0 \<or> (blkTxs \<noteq> [] \<and> ActionName (blkTxs ! 0) \<noteq> MinerAction ccfg)"
  shows "delBlock_loop ops deps ccfg blkTxs i mem
         = foldl (readmit ops deps ccfg) mem (groupScan (GroupTx deps) (drop i blkTxs))"
  using assms
proof (induction "length blkTxs - i" arbitrary: i mem rule: less_induct)
  case less
  show ?case
  proof (cases "i < length blkTxs")
    case False
    then show ?thesis by (simp add: delBlock_loop.simps [of _ _ _ blkTxs i])
  next
    case True
    let ?tx = "blkTxs ! i"
    let ?g = "GroupCount ?tx"
    have notminer: "\<not> (i = 0 \<and> ActionName ?tx = MinerAction ccfg)" using less.prems by auto
    have dr: "drop i blkTxs = ?tx # drop (Suc i) blkTxs"
      using True by (simp add: Cons_nth_drop_Suc)
    show ?thesis
    proof (cases "?g > 1 \<and> int i + ?g \<le> int (length blkTxs)")
      case grp: True
      let ?c = "GroupTx deps (take (nat ?g) (drop i blkTxs))"
      have n: "i + nat ?g - 1 + 1 = i + nat ?g" using grp by simp
      have lt: "length blkTxs - (i + nat ?g) < length blkTxs - i" using grp True by auto
      have ih: "delBlock_loop ops deps ccfg blkTxs (i + nat ?g) m
            = foldl (readmit ops deps ccfg) m (groupScan (GroupTx deps) (drop (i + nat ?g) blkTxs))" for m
        using less.hyps [OF lt] grp by simp
      have sc: "groupScan (GroupTx deps) (drop i blkTxs)
            = ?c # groupScan (GroupTx deps) (drop (i + nat ?g) blkTxs)"
      proof -
        have pos: "?g > 1 \<and> ?g \<le> int (length (?tx # drop (Suc i) blkTxs))"
          using grp True by auto
        have "groupScan (GroupTx deps) (?tx # drop (Suc i) blkTxs)
            = GroupTx deps (take (nat ?g) (?tx # drop (Suc i) blkTxs))
              # groupScan (GroupTx deps) (drop (nat ?g) (?tx # drop (Suc i) blkTxs))"
          by (simp only: groupScan.simps(2) if_P [OF pos])
        then show ?thesis by (simp add: dr [symmetric] add.commute)
      qed
      have step: "delBlock_loop ops deps ccfg blkTxs i mem
            = delBlock_loop ops deps ccfg blkTxs (i + nat ?g) (readmit ops deps ccfg mem ?c)"
        using grp notminer True
        by (subst delBlock_loop.simps) (auto simp add: Let_def n readmit_def)
      show ?thesis by (simp only: step ih sc foldl_Cons)
    next
      case nogrp: False
      have lt: "length blkTxs - (i + 1) < length blkTxs - i" using True by auto
      have ih: "delBlock_loop ops deps ccfg blkTxs (i + 1) m
            = foldl (readmit ops deps ccfg) m (groupScan (GroupTx deps) (drop (i + 1) blkTxs))" for m
        using less.hyps [OF lt] by simp
      have sc: "groupScan (GroupTx deps) (drop i blkTxs)
            = ?tx # groupScan (GroupTx deps) (drop (i + 1) blkTxs)"
      proof -
        have neg: "\<not> (?g > 1 \<and> ?g \<le> int (length (?tx # drop (Suc i) blkTxs)))"
          using nogrp True by auto
        have "groupScan (GroupTx deps) (?tx # drop (Suc i) blkTxs)
            = ?tx # groupScan (GroupTx deps) (drop (Suc i) blkTxs)"
          by (simp only: groupScan.simps(2) if_not_P [OF neg])
        then show ?thesis by (simp add: dr [symmetric])
      qed
      have step: "delBlock_loop ops deps ccfg blkTxs i mem
            = delBlock_loop ops deps ccfg blkTxs (i + 1) (readmit ops deps ccfg mem ?tx)"
        using nogrp notminer True
        by (subst delBlock_loop.simps) (auto simp add: Let_def readmit_def)
      show ?thesis by (simp only: step ih sc foldl_Cons)
    qed
  qed
qed

text \<open>
  C6. With a bound client, \<open>delBlock\<close> always returns: it skips a miner transaction at
  position 0, takes each group that the scan meets as one assembled transaction and goes
  on behind it, checks every candidate (\<^verbatim>\<open>Check\<close> and expiry) before it pushes it, and
  a candidate that fails the checks or the push is dropped while the scan goes on with
  the remaining ones.
\<close>

theorem delBlock_readmits:
  assumes cl: "client mem = Some cl" and cc: "GetConfig cl = Some ccfg"
  shows "delBlock ops deps mem blkTxs
         = Inr (foldl (readmit ops deps ccfg) mem (candidates ccfg (GroupTx deps) blkTxs))"
proof (cases blkTxs)
  case Nil
  then show ?thesis by (simp add: delBlock_def candidates_def)
next
  case (Cons t0 rest)
  have ac: "AssertConfig (client mem) = Inr ccfg" using cl cc by (simp add: AssertConfig_def)
  show ?thesis
  proof (cases "ActionName t0 = MinerAction ccfg")
    case True
    have "delBlock_loop ops deps ccfg blkTxs 0 mem = delBlock_loop ops deps ccfg blkTxs 1 mem"
      using True Cons by (subst delBlock_loop.simps) simp
    also have "\<dots> = foldl (readmit ops deps ccfg) mem (groupScan (GroupTx deps) (drop 1 blkTxs))"
      by (rule delBlock_loop_scan) simp
    finally show ?thesis using True Cons ac by (simp add: delBlock_def candidates_def)
  next
    case False
    have "delBlock_loop ops deps ccfg blkTxs 0 mem
          = foldl (readmit ops deps ccfg) mem (groupScan (GroupTx deps) (drop 0 blkTxs))"
      using False Cons by (intro delBlock_loop_scan) simp
    then show ?thesis using False Cons ac by (simp add: delBlock_def candidates_def)
  qed
qed

theorem delBlock_readmits_witness:
  "delBlock listOps exDeps emptyMem
     [txMiner, txGroup ''g1'', txGroup ''g2'', txBad, txPlain ''p'', txPlain ''p'', txGroup ''g3'']
   = Inr (emptyMem\<lparr>cache :=
       [\<lparr>Value = (txGroup ''g1'')\<lparr>Hash := ''g1g2''\<rparr>, EnterTime = 0\<rparr>,
        \<lparr>Value = txPlain ''p'', EnterTime = 0\<rparr>,
        \<lparr>Value = txGroup ''g3'', EnterTime = 0\<rparr>]\<rparr>)"
  using delBlock_readmits [of emptyMem "\<lparr>GetConfig = Some exampleCfg\<rparr>" exampleCfg listOps exDeps
    "[txMiner, txGroup ''g1'', txGroup ''g2'', txBad, txPlain ''p'', txPlain ''p'', txGroup ''g3'']"]
  by (simp add: emptyMem_def candidates_def groupScan.simps(2) readmit_def PushTx_def
      exDeps_def listOps_def exampleCfg_def txMiner_def txGroup_def txBad_def txPlain_def
      GetHeight_def feeCfg_def)

subsection \<open>checkSync\<close>

lemma checkSync_loop_sync:
  "sync mem \<Longrightarrow> sync (pool (checkSync_loop mem acts turns))"
  by (induction mem acts turns rule: checkSync_loop.induct) (auto split: bool.splits)

lemma checkSync_loop_frame:
  "state (checkSync_loop (mem\<lparr>sync := s\<rparr>) acts turns) = state (checkSync_loop mem acts turns)
   \<and> actions (checkSync_loop (mem\<lparr>sync := s\<rparr>) acts turns) = actions (checkSync_loop mem acts turns)"
  by (induction mem acts turns rule: checkSync_loop.induct) (auto split: bool.splits)

lemma checkSync_loop_returns:
  "client mem \<noteq> None \<Longrightarrow>
   state (checkSync_loop mem acts turns) = Returned \<longleftrightarrow>
     (Closed \<in> set turns \<or> IsCaughtUp True \<in> set turns)"
  by (induction mem acts turns rule: checkSync_loop.induct) (auto split: bool.splits)

lemma checkSync_loop_asks:
  "client mem \<noteq> None \<Longrightarrow> Closed \<notin> set turns \<Longrightarrow> IsCaughtUp True \<notin> set turns \<Longrightarrow>
   state (checkSync_loop mem acts turns) = Running
   \<and> actions (checkSync_loop mem acts turns)
       = acts @ concat (map (\<lambda>_. [AskBlockchainIsSync, SleepSecond]) turns)"
  by (induction mem acts turns rule: checkSync_loop.induct) (auto split: bool.splits)

text \<open>
  C7, as amended. When ForceAccept is set and the pool is not yet synced, \<open>checkSync\<close>
  marks the pool synced before the first poll; the task then polls the chain's
  catch-up status as it does without ForceAccept, and it returns only when the pool is
  closed or the chain answers that it has caught up.
\<close>

theorem checkSync_ForceAccept:
  assumes fa: "ForceAccept (cfg mem)" and ns: "\<not> sync mem" and cl: "client mem \<noteq> None"
  shows "sync (pool (checkSync mem turns))
     \<and> (state (checkSync mem turns) = Returned \<longleftrightarrow>
          (Closed \<in> set turns \<or> IsCaughtUp True \<in> set turns))
     \<and> state (checkSync mem turns)
         = state (checkSync (mem\<lparr>cfg := (cfg mem)\<lparr>ForceAccept := False\<rparr>\<rparr>) turns)
     \<and> actions (checkSync mem turns)
         = actions (checkSync (mem\<lparr>cfg := (cfg mem)\<lparr>ForceAccept := False\<rparr>\<rparr>) turns)
     \<and> (Closed \<notin> set turns \<and> IsCaughtUp True \<notin> set turns \<longrightarrow>
          actions (checkSync mem turns)
            = concat (map (\<lambda>_. [AskBlockchainIsSync, SleepSecond]) turns))"
proof -
  let ?m1 = "mem\<lparr>sync := True\<rparr>"
  let ?m0 = "mem\<lparr>cfg := (cfg mem)\<lparr>ForceAccept := False\<rparr>\<rparr>"
  have a: "checkSync mem turns =
      (let r = checkSync_loop ?m1 [] turns
       in if state r = Running then r else r\<lparr>actions := actions r @ [SignalPoolHeader]\<rparr>)"
    using fa ns by (simp add: checkSync_def)
  have b: "checkSync ?m0 turns =
      (let r = checkSync_loop ?m0 [] turns
       in if state r = Running then r else r\<lparr>actions := actions r @ [SignalPoolHeader]\<rparr>)"
    using ns by (simp add: checkSync_def)
  have fr: "state (checkSync_loop ?m1 [] turns) = state (checkSync_loop mem [] turns)"
    "actions (checkSync_loop ?m1 [] turns) = actions (checkSync_loop mem [] turns)"
    using checkSync_loop_frame [where mem = mem and s = True and acts = "[]" and turns = turns] by simp_all
  have cf: "state (checkSync_loop (m\<lparr>cfg := c\<rparr>) acts turns) = state (checkSync_loop m acts turns)
     \<and> actions (checkSync_loop (m\<lparr>cfg := c\<rparr>) acts turns) = actions (checkSync_loop m acts turns)"
    for m :: "'a Mempool" and c acts
    by (induction m acts turns rule: checkSync_loop.induct) (auto split: bool.splits)
  have s1: "sync (pool (checkSync_loop ?m1 [] turns))"
    by (rule checkSync_loop_sync) simp
  have r1: "state (checkSync_loop ?m1 [] turns) = Returned \<longleftrightarrow>
     (Closed \<in> set turns \<or> IsCaughtUp True \<in> set turns)"
    using cl by (intro checkSync_loop_returns) simp
  have p1: "Closed \<notin> set turns \<and> IsCaughtUp True \<notin> set turns \<longrightarrow>
      state (checkSync_loop ?m1 [] turns) = Running
      \<and> actions (checkSync_loop ?m1 [] turns)
          = concat (map (\<lambda>_. [AskBlockchainIsSync, SleepSecond]) turns)"
    using cl checkSync_loop_asks [where mem = ?m1 and acts = "[]" and turns = turns] by simp
  show ?thesis
    using s1 r1 p1 fr cf [where m = mem and c = "(cfg mem)\<lparr>ForceAccept := False\<rparr>" and acts = "[]"]
    by (auto simp add: a b Let_def)
qed

theorem checkSync_ForceAccept_witness:
  "sync (pool (checkSync emptyMem [IsCaughtUp False, SendErr]))
   \<and> state (checkSync emptyMem [IsCaughtUp False, SendErr]) \<noteq> Returned
   \<and> state (checkSync emptyMem [IsCaughtUp False, IsCaughtUp True, SendErr]) = Returned"
proof -
  have h: "ForceAccept (cfg emptyMem)" "\<not> sync emptyMem" "client emptyMem \<noteq> None"
    by (simp_all add: emptyMem_def feeCfg_def)
  note t1 = checkSync_ForceAccept [OF h, of "[IsCaughtUp False, SendErr]"]
  note t2 = checkSync_ForceAccept [OF h, of "[IsCaughtUp False, IsCaughtUp True, SendErr]"]
  have "sync (pool (checkSync emptyMem [IsCaughtUp False, SendErr]))"
    using t1 by (rule conjunct1)
  moreover have "state (checkSync emptyMem [IsCaughtUp False, SendErr]) \<noteq> Returned"
    using t1 [THEN conjunct2, THEN conjunct1] by simp
  moreover have "state (checkSync emptyMem [IsCaughtUp False, IsCaughtUp True, SendErr]) = Returned"
    using t2 [THEN conjunct2, THEN conjunct1] by simp
  ultimately show ?thesis by simp
qed

text \<open>
  The claim C7 as it is written fails: with ForceAccept set the task asks the chain for
  its catch-up status on every turn and is still in its loop while the chain has not
  caught up.
\<close>

theorem checkSync_ForceAccept_still_polls:
  "ForceAccept (cfg emptyMem) \<and> \<not> sync emptyMem
   \<and> state (checkSync emptyMem [IsCaughtUp False, SendErr]) = Running
   \<and> actions (checkSync emptyMem [IsCaughtUp False, SendErr])
       = [AskBlockchainIsSync, SleepSecond, AskBlockchainIsSync, SleepSecond]"
  by (simp add: checkSync_def emptyMem_def feeCfg_def Let_def)

subsection \<open>pushDelayTxRoutine\<close>

lemma foldl_push2Mempool:
  "foldl (push2Mempool SendTx) (rl, w) txs
     = (rl @ poolFull (attempts SendTx w txs), sendAll SendTx w txs)"
  by (induction txs arbitrary: rl w) (auto simp: push2Mempool_def poolFull_def)

lemma attempts_once: "map fst (attempts SendTx w txs) = txs"
  by (induction txs arbitrary: w) auto

text \<open>
  C8. \<open>push2Mempool\<close> appends a transaction to the retry list exactly when its
  submission fails with \<open>ErrMemFull\<close>. On a tick the retry list is emptied first and
  each of its transactions is submitted once, in order; those that fail with
  \<open>ErrMemFull\<close> again make up the retry list for the next tick.
\<close>

theorem pushDelayTxRoutine_retry:
  "fst (push2Mempool SendTx (rl, w) tx)
     = (if fst (SendTx w tx) = Some ErrMemFull then rl @ [tx] else rl)
   \<and> onDelayList SendTx (rl, w) l = (rl @ poolFull (attempts SendTx w l), sendAll SendTx w l)
   \<and> onTick SendTx (rl, w) = (poolFull (attempts SendTx w rl), sendAll SendTx w rl)
   \<and> map fst (attempts SendTx w rl) = rl"
  by (simp add: push2Mempool_def onDelayList_def onTick_def foldl_push2Mempool attempts_once
      poolFull_def)

theorem pushDelayTxRoutine_retry_witness:
  "onDelayList fullTwice ([], 0) [txPlain ''p'', txPlain ''q'', txPlain ''r''] = ([txPlain ''p''], 3)
   \<and> onTick fullTwice ([txPlain ''p'', txPlain ''p''], 1) = ([txPlain ''p''], 3)
   \<and> pushDelayTxRoutine fullTwice ([], 0)
        [DelayList [txPlain ''p'', txPlain ''q''], Tick, Tick, Done, Tick] = (True, [], 3)"
  using pushDelayTxRoutine_retry [of fullTwice "[]" 0 "txPlain ''p''"
      "[txPlain ''p'', txPlain ''q'', txPlain ''r'']"]
    pushDelayTxRoutine_retry [of fullTwice "[txPlain ''p'', txPlain ''p'']" 1 "txPlain ''p''" "[]"]
  by (simp add: poolFull_def fullTwice_def txPlain_def onDelayList_def onTick_def
      push2Mempool_def)

end
